theory Spec2Isabelle
  imports Main
begin

section \<open>Python values used by app.py\<close>

text \<open>
  A Python \<open>str\<close> is a sequence of code points. It is modelled as a HOL \<open>string\<close>,
  each \<open>char\<close> standing for the code point of the same number (0 to 255), so
  \<open>length\<close> is Python's \<open>len\<close> and \<open>take n\<close> is the slice \<open>[:n]\<close>.
\<close>

text \<open>
  An exception carries its class name and the text that \<open>str(e)\<close> returns. Every
  exception of the model is a subclass of \<open>Exception\<close>, which is what the handlers'
  \<open>except Exception\<close> clauses catch.
\<close>

datatype exn = Exn (exn_class: string) (exn_str: string)

text \<open>\<open>xs[i]\<close> for a non-negative index: IndexError when out of range.\<close>

definition index :: "'a list \<Rightarrow> nat \<Rightarrow> exn + 'a" where
  "index xs i =
     (if i < length xs then Inr (xs ! i)
      else Inl (Exn ''IndexError'' ''list index out of range''))"

text \<open>
  \<open>str.lower()\<close> on code points below 256: the ASCII capitals and the Latin-1
  capitals (192 to 222 without the multiplication sign 215) move up by 32.
\<close>

definition lower_char :: "char \<Rightarrow> char" where
  "lower_char c =
     (let n = (of_char c :: nat)
      in if (65 \<le> n \<and> n \<le> 90) \<or> (192 \<le> n \<and> n \<le> 222 \<and> n \<noteq> 215)
         then char_of (n + 32) else c)"

definition str_lower :: "string \<Rightarrow> string" where
  "str_lower s = map lower_char s"

text \<open>
  \<open>s.rsplit(sep, 1)\<close> for a one-character separator: the string is scanned from
  the right; without a separator the result is \<open>[s]\<close>, otherwise it is the part
  before the last separator and the part after it.
\<close>

definition rsplit1 :: "char \<Rightarrow> string \<Rightarrow> string list" where
  "rsplit1 sep s =
     (if sep \<in> set s
      then [rev (tl (dropWhile (\<lambda>c. c \<noteq> sep) (rev s))),
            rev (takeWhile (\<lambda>c. c \<noteq> sep) (rev s))]
      else [s])"

text \<open>\<open>os.path.join(a, b)\<close> on POSIX, for two components.\<close>

definition path_join :: "string \<Rightarrow> string \<Rightarrow> string" where
  "path_join a b =
     (if b \<noteq> [] \<and> hd b = CHR ''/'' then b
      else if a = [] \<or> last a = CHR ''/'' then a @ b
      else a @ ''/'' @ b)"

text \<open>
  JSON values: what \<open>request.json\<close> evaluates to and what \<open>jsonify\<close> is given.
  \<open>JNull\<close> is Python's \<open>None\<close>, \<open>JObj\<close> a dict given by its items; numbers are
  integers.
\<close>

datatype json =
    JNull
  | JBool bool
  | JNum int
  | JStr string
  | JArr "json list"
  | JObj "(string \<times> json) list"

text \<open>Python truthiness, as \<open>not topic\<close> and \<open>not question\<close> test it.\<close>

fun truthy :: "json \<Rightarrow> bool" where
  "truthy JNull = False"
| "truthy (JBool b) = b"
| "truthy (JNum n) = (n \<noteq> 0)"
| "truthy (JStr s) = (s \<noteq> [])"
| "truthy (JArr xs) = (xs \<noteq> [])"
| "truthy (JObj kvs) = (kvs \<noteq> [])"

text \<open>
  \<open>data.get(key, default)\<close>: only a dict has the method; on \<open>None\<close> and on every
  other parsed value the attribute lookup raises AttributeError.
\<close>

definition quoted :: "string \<Rightarrow> string" where
  "quoted s = CHR 0x27 # s @ [CHR 0x27]"

definition no_get :: "string \<Rightarrow> exn" where
  "no_get cls =
     Exn ''AttributeError'' (quoted cls @ '' object has no attribute '' @ quoted ''get'')"

fun dict_get :: "json \<Rightarrow> string \<Rightarrow> json \<Rightarrow> exn + json" where
  "dict_get (JObj kvs) k d = Inr (case map_of kvs k of None \<Rightarrow> d | Some v \<Rightarrow> v)"
| "dict_get JNull k d = Inl (no_get ''NoneType'')"
| "dict_get (JBool b) k d = Inl (no_get ''bool'')"
| "dict_get (JNum n) k d = Inl (no_get ''int'')"
| "dict_get (JStr s) k d = Inl (no_get ''str'')"
| "dict_get (JArr xs) k d = Inl (no_get ''list'')"


section \<open>Requests, responses and the collaborators\<close>

text \<open>
  An uploaded file (\<open>FileStorage\<close>): its client-side name and its bytes. Its truth
  value is that of its filename.
\<close>

record file_storage =
  filename :: string
  stream :: "nat list"

definition file_truthy :: "file_storage \<Rightarrow> bool" where
  "file_truthy f = (filename f \<noteq> [])"

text \<open>
  What a handler reads of the request: \<open>request.files\<close>, \<open>request.form\<close> and the
  value of \<open>request.json\<close>, which is \<open>None\<close> when the body carries no JSON value.
\<close>

record request =
  files :: "string \<rightharpoonup> file_storage"
  form :: "string \<rightharpoonup> string"
  json_body :: json

text \<open>\<open>request.form.get(key, default)\<close>.\<close>

definition form_get :: "request \<Rightarrow> string \<Rightarrow> string \<Rightarrow> string" where
  "form_get req k d = (case form req k of None \<Rightarrow> d | Some v \<Rightarrow> v)"

text \<open>
  A handler's return value: the JSON body given to \<open>jsonify\<close> and the status, which
  is 200 where the handler returns the body alone.
\<close>

type_synonym response = "json \<times> nat"

text \<open>The calls a handler makes to its collaborators, in order.\<close>

datatype call =
    Save string "nat list"
  | ProcessUploadedFile string
  | AddSyllabusMaterials string string "(string \<times> json) list"
  | GenerateContent json json json json
  | Chat json json json

text \<open>
  The state outside the handler: the files on disk and the calls made so far (the
  newest last).
\<close>

record world =
  disk :: "string \<rightharpoonup> nat list"
  calls :: "call list"

text \<open>
  The collaborators, none of which is defined in app.py: werkzeug's
  \<open>secure_filename\<close>, the failure (if any) of \<open>file.save\<close> on a path,
  \<open>process_uploaded_file\<close>, the AI gateway and the clock. Each of them returns a
  value or raises.
\<close>

record env =
  secure_filename :: "string \<Rightarrow> string"
  save_failure :: "(string \<rightharpoonup> nat list) \<Rightarrow> string \<Rightarrow> exn option"
  process_uploaded_file :: "(string \<rightharpoonup> nat list) \<Rightarrow> string \<Rightarrow> exn + string"
  add_syllabus_materials :: "string \<Rightarrow> string \<Rightarrow> (string \<times> json) list \<Rightarrow> exn + bool"
  ai_generate_content :: "json \<Rightarrow> json \<Rightarrow> json \<Rightarrow> json \<Rightarrow> exn + string"
  ai_chat :: "json \<Rightarrow> json \<Rightarrow> json \<Rightarrow> exn + string"
  now_isoformat :: string

definition log_call :: "call \<Rightarrow> world \<Rightarrow> world" where
  "log_call c w = w\<lparr>calls := calls w @ [c]\<rparr>"

text \<open>
  \<open>file.save(filepath)\<close>: the call is made, then the write either raises, leaving
  the disk as it was, or stores the bytes.
\<close>

definition save :: "env \<Rightarrow> file_storage \<Rightarrow> string \<Rightarrow> world \<Rightarrow> exn option \<times> world" where
  "save e f path w =
     (let w1 = log_call (Save path (stream f)) w
      in case save_failure e (disk w) path of
           Some x \<Rightarrow> (Some x, w1)
         | None \<Rightarrow> (None, w1\<lparr>disk := (disk w)(path \<mapsto> stream f)\<rparr>))"

section \<open>app.py\<close>

definition UPLOAD_FOLDER :: string where
  "UPLOAD_FOLDER = ''static/uploads/''"

definition ALLOWED_EXTENSIONS :: "string set" where
  "ALLOWED_EXTENSIONS = {''txt'', ''pdf'', ''doc'', ''docx'', ''jpg'', ''jpeg'', ''png''}"

definition allowed_file :: "string \<Rightarrow> exn + bool" where
  "allowed_file fname =
     (if CHR ''.'' \<in> set fname
      then (case index (rsplit1 CHR ''.'' fname) 1 of
              Inl x \<Rightarrow> Inl x
            | Inr ext \<Rightarrow> Inr (str_lower ext \<in> ALLOWED_EXTENSIONS))
      else Inr False)"

definition error_body :: "string \<Rightarrow> json" where
  "error_body msg = JObj [(''error'', JStr msg)]"

text \<open>\<open>text[:n] + "..." if len(text) > n else text\<close>.\<close>

definition truncated :: "nat \<Rightarrow> string \<Rightarrow> string" where
  "truncated n t = (if length t > n then take n t @ ''...'' else t)"

definition upload_file :: "env \<Rightarrow> world \<Rightarrow> request \<Rightarrow> (exn + response) \<times> world" where
  "upload_file e w req =
     (case files req ''file'' of
        None \<Rightarrow> (Inr (error_body ''No file uploaded'', 400), w)
      | Some file \<Rightarrow>
          (let education_level = form_get req ''education_level'' ''high_school''
           in if filename file = [] then (Inr (error_body ''No file selected'', 400), w)
              else
                (case (if file_truthy file then allowed_file (filename file) else Inr False) of
                   Inl x \<Rightarrow> (Inl x, w)
                 | Inr False \<Rightarrow> (Inr (error_body ''Invalid file type'', 400), w)
                 | Inr True \<Rightarrow>
                     (let fname = secure_filename e (filename file);
                          filepath = path_join UPLOAD_FOLDER fname
                      in case save e file filepath w of
                           (Some x, w1) \<Rightarrow> (Inl x, w1)
                         | (None, w1) \<Rightarrow>
                             (let w2 = log_call (ProcessUploadedFile filepath) w1
                              in case process_uploaded_file e (disk w1) filepath of
                                   Inr text_content \<Rightarrow>
                                     (Inr (JObj [(''success'', JBool True),
                                                 (''filename'', JStr fname),
                                                 (''content'', JStr (truncated 1000 text_content)),
                                                 (''message'', JStr ''File processed successfully'')],
                                           200), w2)
                                 | Inl x \<Rightarrow>
                                     (Inr (error_body (''Error processing file: '' @ exn_str x),
                                           500), w2))))))"

definition upload_syllabus :: "env \<Rightarrow> world \<Rightarrow> request \<Rightarrow> (exn + response) \<times> world" where
  "upload_syllabus e w req =
     (case files req ''file'' of
        None \<Rightarrow> (Inr (error_body ''No file uploaded'', 400), w)
      | Some file \<Rightarrow>
          (let education_level = form_get req ''education_level'' ''high_school'';
               subject = form_get req ''subject'' ''general''
           in if filename file = [] then (Inr (error_body ''No file selected'', 400), w)
              else
                (case (if file_truthy file then allowed_file (filename file) else Inr False) of
                   Inl x \<Rightarrow> (Inl x, w)
                 | Inr False \<Rightarrow> (Inr (error_body ''Invalid file type'', 400), w)
                 | Inr True \<Rightarrow>
                     (let fname = secure_filename e (filename file);
                          filepath = path_join UPLOAD_FOLDER (''syllabus_'' @ fname)
                      in case save e file filepath w of
                           (Some x, w1) \<Rightarrow> (Inl x, w1)
                         | (None, w1) \<Rightarrow>
                             (let w2 = log_call (ProcessUploadedFile filepath) w1
                              in case process_uploaded_file e (disk w1) filepath of
                                   Inl x \<Rightarrow>
                                     (Inr (error_body (''Error processing syllabus: '' @ exn_str x),
                                           500), w2)
                                 | Inr text_content \<Rightarrow>
                                     (let metadata = [(''education_level'', JStr education_level),
                                                      (''subject'', JStr subject),
                                                      (''upload_date'', JStr (now_isoformat e))];
                                          w3 = log_call (AddSyllabusMaterials fname text_content metadata) w2
                                      in case add_syllabus_materials e fname text_content metadata of
                                           Inl x \<Rightarrow>
                                             (Inr (error_body (''Error processing syllabus: '' @ exn_str x),
                                                   500), w3)
                                         | Inr True \<Rightarrow>
                                             (Inr (JObj [(''success'', JBool True),
                                                         (''filename'', JStr fname),
                                                         (''message'', JStr ''Syllabus material embedded successfully''),
                                                         (''preview'', JStr (truncated 500 text_content))],
                                                   200), w3)
                                         | Inr False \<Rightarrow>
                                             (Inr (error_body ''Failed to process syllabus material'',
                                                   500), w3)))))))"

definition generate_content :: "env \<Rightarrow> world \<Rightarrow> request \<Rightarrow> (exn + response) \<times> world" where
  "generate_content e w req =
     (let data = json_body req
      in case dict_get data ''topic'' JNull of
           Inl x \<Rightarrow> (Inl x, w)
         | Inr topic \<Rightarrow>
        (case dict_get data ''education_level'' (JStr ''high_school'') of
           Inl x \<Rightarrow> (Inl x, w)
         | Inr education_level \<Rightarrow>
        (case dict_get data ''reference_material'' (JStr []) of
           Inl x \<Rightarrow> (Inl x, w)
         | Inr reference_material \<Rightarrow>
        (case dict_get data ''content_type'' (JStr ''explanation'') of
           Inl x \<Rightarrow> (Inl x, w)
         | Inr content_type \<Rightarrow>
             if \<not> truthy topic then (Inr (error_body ''Topic is required'', 400), w)
             else
               (let w1 = log_call (GenerateContent topic education_level reference_material content_type) w
                in case ai_generate_content e topic education_level reference_material content_type of
                     Inr result \<Rightarrow>
                       (Inr (JObj [(''success'', JBool True),
                                   (''content'', JStr result),
                                   (''content_type'', content_type)],
                             200), w1)
                   | Inl x \<Rightarrow>
                       (Inr (error_body (''Error generating content: '' @ exn_str x), 500), w1))))))"


definition health_check :: "env \<Rightarrow> world \<Rightarrow> request \<Rightarrow> (exn + response) \<times> world" where
  "health_check e w req =
     (Inr (JObj [(''status'', JStr ''healthy''),
                 (''message'', JStr ''Learnova AI is running!'')],
           200), w)"

section \<open>Observations on requests and responses\<close>

text \<open>
  A request passes the three checks of the upload routes with the file part \<open>file\<close>:
  the part is present, its filename is not empty, and \<open>allowed_file\<close> accepts it.
\<close>

definition passes_validation :: "request \<Rightarrow> file_storage \<Rightarrow> bool" where
  "passes_validation req file =
     (files req ''file'' = Some file \<and> filename file \<noteq> [] \<and>
      allowed_file (filename file) = Inr True)"

text \<open>The field \<open>k\<close> of the JSON object a handler responds with, if it responds.\<close>

fun response_field :: "(exn + response) \<Rightarrow> string \<Rightarrow> json option" where
  "response_field (Inr (JObj kvs, status)) k = map_of kvs k"
| "response_field r k = None"

fun status_of :: "(exn + response) \<Rightarrow> nat option" where
  "status_of (Inr (body, status)) = Some status"
| "status_of (Inl x) = None"


abbreviation syllabus_path :: "env \<Rightarrow> file_storage \<Rightarrow> string" where
  "syllabus_path e file \<equiv>
     path_join UPLOAD_FOLDER (''syllabus_'' @ secure_filename e (filename file))"

abbreviation syllabus_metadata :: "env \<Rightarrow> request \<Rightarrow> (string \<times> json) list" where
  "syllabus_metadata e req \<equiv>
     [(''education_level'', JStr (form_get req ''education_level'' ''high_school'')),
      (''subject'', JStr (form_get req ''subject'' ''general'')),
      (''upload_date'', JStr (now_isoformat e))]"

subsection \<open>Concrete inputs\<close>

text \<open>Collaborators that all succeed; \<open>secure_filename\<close> leaves a safe name as it is.\<close>

definition sample_env :: env where
  "sample_env =
     \<lparr>secure_filename = (\<lambda>n. n),
      save_failure = (\<lambda>d p. None),
      process_uploaded_file = (\<lambda>d p. Inr ''photosynthesis notes''),
      add_syllabus_materials = (\<lambda>n t m. Inr True),
      ai_generate_content = (\<lambda>t l r c. Inr ''generated text''),
      ai_chat = (\<lambda>q l c. Inr ''an answer''),
      now_isoformat = ''2024-05-01T10:00:00''\<rparr>"

definition empty_world :: world where
  "empty_world = \<lparr>disk = Map.empty, calls = []\<rparr>"

text \<open>
  The same collaborators, but with a given outcome of the text extraction, with a
  disk that refuses every write, and with a given outcome of the gateway's
  \<open>add_syllabus_materials\<close>.
\<close>

definition extractor_env :: "exn + string \<Rightarrow> env" where
  "extractor_env r = sample_env\<lparr>process_uploaded_file := (\<lambda>d p. r)\<rparr>"

definition disk_full_env :: env where
  "disk_full_env =
     sample_env\<lparr>save_failure := (\<lambda>d p. Some (Exn ''OSError'' ''No space left on device''))\<rparr>"

definition gateway_env :: "exn + bool \<Rightarrow> env" where
  "gateway_env r = sample_env\<lparr>add_syllabus_materials := (\<lambda>n t m. r)\<rparr>"

text \<open>A multipart request whose only file part has the given filename.\<close>

definition sample_file :: "string \<Rightarrow> file_storage" where
  "sample_file n = \<lparr>filename = n, stream = [104, 105]\<rparr>"

definition file_request :: "string \<Rightarrow> request" where
  "file_request n =
     \<lparr>files = [''file'' \<mapsto> sample_file n],
      form = Map.empty,
      json_body = JNull\<rparr>"

text \<open>A request with no file part, and a request with the given parsed JSON body.\<close>

definition bare_request :: request where
  "bare_request = \<lparr>files = Map.empty, form = Map.empty, json_body = JNull\<rparr>"

definition json_request :: "json \<Rightarrow> request" where
  "json_request j = \<lparr>files = Map.empty, form = Map.empty, json_body = j\<rparr>"

section \<open>The file validator\<close>

lemma rsplit1_last:
  assumes "sep \<notin> set ext"
  shows "rsplit1 sep (pre @ sep # ext) = [pre, ext]"
proof -
  have r: "rev (pre @ sep # ext) = rev ext @ sep # rev pre" by simp
  have t: "takeWhile (\<lambda>c. c \<noteq> sep) (rev ext @ sep # rev pre) = rev ext"
    using assms by (subst takeWhile_append2) auto
  have d: "dropWhile (\<lambda>c. c \<noteq> sep) (rev ext @ sep # rev pre) = sep # rev pre"
    using assms by (subst dropWhile_append2) auto
  show ?thesis unfolding rsplit1_def r t d by simp
qed

lemma last_split_unique:
  fixes sep :: char
  assumes "sep \<notin> set ext" and "sep \<notin> set ext'"
    and eq: "pre @ sep # ext = pre' @ sep # ext'"
  shows "ext' = ext"
proof -
  have "[pre, ext] = rsplit1 sep (pre @ sep # ext)"
    using assms(1) by (rule rsplit1_last [symmetric])
  also have "\<dots> = rsplit1 sep (pre' @ sep # ext')"
    by (simp only: eq)
  also have "\<dots> = [pre', ext']"
    using assms(2) by (rule rsplit1_last)
  finally show ?thesis by simp
qed

lemma allowed_file_split:
  assumes "CHR ''.'' \<notin> set ext"
  shows "allowed_file (pre @ CHR ''.'' # ext) = Inr (str_lower ext \<in> ALLOWED_EXTENSIONS)"
proof -
  have "index (rsplit1 CHR ''.'' (pre @ CHR ''.'' # ext)) 1 = Inr ext"
    by (simp add: rsplit1_last [OF assms] index_def)
  then show ?thesis
    by (simp add: allowed_file_def)
qed

lemma allowed_file_no_dot:
  "CHR ''.'' \<notin> set f \<Longrightarrow> allowed_file f = Inr False"
  by (simp add: allowed_file_def)

lemma allowed_file_iff:
  "allowed_file f =
     Inr (CHR ''.'' \<in> set f \<and>
          (\<exists>pre ext. f = pre @ CHR ''.'' # ext \<and> CHR ''.'' \<notin> set ext \<and>
             str_lower ext \<in> {''txt'', ''pdf'', ''doc'', ''docx'', ''jpg'', ''jpeg'', ''png''}))"
proof (cases "CHR ''.'' \<in> set f")
  case False
  then show ?thesis by (simp add: allowed_file_no_dot)
next
  case True
  then obtain pre ext where f: "f = pre @ CHR ''.'' # ext" and ext: "CHR ''.'' \<notin> set ext"
    using split_list_last [of "CHR ''.''" f] by blast
  have a: "allowed_file f = Inr (str_lower ext \<in> ALLOWED_EXTENSIONS)"
    unfolding f using ext by (rule allowed_file_split)
  have b: "(\<exists>pre' ext'. f = pre' @ CHR ''.'' # ext' \<and> CHR ''.'' \<notin> set ext' \<and>
             str_lower ext' \<in> ALLOWED_EXTENSIONS) = (str_lower ext \<in> ALLOWED_EXTENSIONS)"
  proof
    assume "\<exists>pre' ext'. f = pre' @ CHR ''.'' # ext' \<and> CHR ''.'' \<notin> set ext' \<and>
             str_lower ext' \<in> ALLOWED_EXTENSIONS"
    then obtain pre' ext' where p: "f = pre' @ CHR ''.'' # ext'" "CHR ''.'' \<notin> set ext'"
        "str_lower ext' \<in> ALLOWED_EXTENSIONS" by blast
    have "pre @ CHR ''.'' # ext = pre' @ CHR ''.'' # ext'"
      using f p(1) by simp
    with ext p(2) have "ext' = ext"
      by (rule last_split_unique)
    with p(3) show "str_lower ext \<in> ALLOWED_EXTENSIONS" by simp
  next
    assume "str_lower ext \<in> ALLOWED_EXTENSIONS"
    with f ext show "\<exists>pre' ext'. f = pre' @ CHR ''.'' # ext' \<and> CHR ''.'' \<notin> set ext' \<and>
             str_lower ext' \<in> ALLOWED_EXTENSIONS" by blast
  qed
  show ?thesis
    unfolding a using b True unfolding ALLOWED_EXTENSIONS_def by simp
qed

lemma allowed_file_total: "\<exists>b. allowed_file f = Inr b"
  using allowed_file_iff [of f] by blast

lemma allowed_examples:
  "allowed_file ''notes.TXT'' = Inr True"
  "allowed_file ''virus.exe'' = Inr False"
  "allowed_file ''x.exe'' = Inr False"
  "allowed_file ''noext'' = Inr False"
  "allowed_file [] = Inr False"
  "allowed_file ''a.txt'' = Inr True"
  by code_simp+

text \<open>
  C1. \<open>allowed_file\<close> never raises, and it returns true exactly when the filename
  contains a dot and the lowercased part after the last dot is one of txt, pdf, doc,
  docx, jpg, jpeg, png. The empty string and every name without a dot are rejected;
  the comparison ignores case: notes.TXT is allowed, virus.exe and noext are not.
\<close>

theorem allowed_file_correct:
  "allowed_file f =
     Inr (CHR ''.'' \<in> set f \<and>
          (\<exists>pre ext. f = pre @ CHR ''.'' # ext \<and> CHR ''.'' \<notin> set ext \<and>
             str_lower ext \<in> {''txt'', ''pdf'', ''doc'', ''docx'', ''jpg'', ''jpeg'', ''png''}))
   \<and> allowed_file [] = Inr False
   \<and> (CHR ''.'' \<notin> set f \<longrightarrow> allowed_file f = Inr False)
   \<and> allowed_file ''notes.TXT'' = Inr True
   \<and> allowed_file ''virus.exe'' = Inr False
   \<and> allowed_file ''noext'' = Inr False"
  using allowed_file_iff [of f] allowed_file_no_dot [of f] allowed_examples
  by simp

theorem allowed_file_correct_witness:
  "CHR ''.'' \<notin> set ''noext'' \<and> allowed_file ''noext'' = Inr False
   \<and> allowed_file ''report.Pdf'' =
       Inr (\<exists>pre ext. ''report.Pdf'' = pre @ CHR ''.'' # ext \<and> CHR ''.'' \<notin> set ext \<and>
             str_lower ext \<in> {''txt'', ''pdf'', ''doc'', ''docx'', ''jpg'', ''jpeg'', ''png''})"
proof -
  have n: "CHR ''.'' \<notin> set ''noext''" by simp
  have d: "CHR ''.'' \<in> set ''report.Pdf''" by simp
  show ?thesis
    using n d allowed_file_correct [of "''noext''"] allowed_file_correct [of "''report.Pdf''"]
    by simp
qed

section \<open>The handlers, path by path\<close>

lemma log_call_simps:
  "calls (log_call c w) = calls w @ [c]" "disk (log_call c w) = disk w"
  by (simp_all add: log_call_def)

lemma save_ok:
  "save_failure e (disk w) p = None \<Longrightarrow>
   save e f p w = (None, \<lparr>disk = (disk w)(p \<mapsto> stream f), calls = calls w @ [Save p (stream f)]\<rparr>)"
  by (simp add: save_def log_call_def)

lemma save_fails:
  "save_failure e (disk w) p = Some x \<Longrightarrow>
   save e f p w = (Some x, \<lparr>disk = disk w, calls = calls w @ [Save p (stream f)]\<rparr>)"
  by (simp add: save_def log_call_def)

lemma upload_file_no_part:
  "files req ''file'' = None \<Longrightarrow>
   upload_file e w req = (Inr (error_body ''No file uploaded'', 400), w)"
  by (simp add: upload_file_def)

lemma upload_file_no_name:
  "files req ''file'' = Some file \<Longrightarrow> filename file = [] \<Longrightarrow>
   upload_file e w req = (Inr (error_body ''No file selected'', 400), w)"
  by (simp add: upload_file_def)

lemma upload_file_bad_type:
  "files req ''file'' = Some file \<Longrightarrow> filename file \<noteq> [] \<Longrightarrow>
   allowed_file (filename file) = Inr False \<Longrightarrow>
   upload_file e w req = (Inr (error_body ''Invalid file type'', 400), w)"
  by (simp add: upload_file_def file_truthy_def)

lemma upload_file_save_fails:
  assumes "passes_validation req file"
    and "save_failure e (disk w) (path_join UPLOAD_FOLDER (secure_filename e (filename file))) = Some x"
  shows "upload_file e w req =
     (Inl x, \<lparr>disk = disk w,
              calls = calls w @ [Save (path_join UPLOAD_FOLDER (secure_filename e (filename file))) (stream file)]\<rparr>)"
  using assms by (simp add: upload_file_def passes_validation_def file_truthy_def save_fails)

lemma upload_file_processed:
  assumes "passes_validation req file"
    and "p = path_join UPLOAD_FOLDER (secure_filename e (filename file))"
    and "save_failure e (disk w) p = None"
    and "process_uploaded_file e ((disk w)(p \<mapsto> stream file)) p = Inr t"
  shows "upload_file e w req =
     (Inr (JObj [(''success'', JBool True),
                 (''filename'', JStr (secure_filename e (filename file))),
                 (''content'', JStr (truncated 1000 t)),
                 (''message'', JStr ''File processed successfully'')], 200),
      \<lparr>disk = (disk w)(p \<mapsto> stream file),
       calls = calls w @ [Save p (stream file), ProcessUploadedFile p]\<rparr>)"
  using assms by (simp add: upload_file_def passes_validation_def file_truthy_def save_ok log_call_def Let_def)

lemma upload_file_process_fails:
  assumes "passes_validation req file"
    and "p = path_join UPLOAD_FOLDER (secure_filename e (filename file))"
    and "save_failure e (disk w) p = None"
    and "process_uploaded_file e ((disk w)(p \<mapsto> stream file)) p = Inl x"
  shows "upload_file e w req =
     (Inr (error_body (''Error processing file: '' @ exn_str x), 500),
      \<lparr>disk = (disk w)(p \<mapsto> stream file),
       calls = calls w @ [Save p (stream file), ProcessUploadedFile p]\<rparr>)"
  using assms by (simp add: upload_file_def passes_validation_def file_truthy_def save_ok log_call_def Let_def)


lemma upload_syllabus_no_part:
  "files req ''file'' = None \<Longrightarrow>
   upload_syllabus e w req = (Inr (error_body ''No file uploaded'', 400), w)"
  by (simp add: upload_syllabus_def)

lemma upload_syllabus_no_name:
  "files req ''file'' = Some file \<Longrightarrow> filename file = [] \<Longrightarrow>
   upload_syllabus e w req = (Inr (error_body ''No file selected'', 400), w)"
  by (simp add: upload_syllabus_def)

lemma upload_syllabus_bad_type:
  "files req ''file'' = Some file \<Longrightarrow> filename file \<noteq> [] \<Longrightarrow>
   allowed_file (filename file) = Inr False \<Longrightarrow>
   upload_syllabus e w req = (Inr (error_body ''Invalid file type'', 400), w)"
  by (simp add: upload_syllabus_def file_truthy_def)

lemma upload_syllabus_save_fails:
  assumes "passes_validation req file"
    and "p = path_join UPLOAD_FOLDER (''syllabus_'' @ secure_filename e (filename file))"
    and "save_failure e (disk w) p = Some x"
  shows "upload_syllabus e w req =
     (Inl x, \<lparr>disk = disk w, calls = calls w @ [Save p (stream file)]\<rparr>)"
  using assms
  by (simp add: upload_syllabus_def passes_validation_def file_truthy_def save_fails Let_def)

lemma upload_syllabus_process_fails:
  assumes "passes_validation req file"
    and "p = path_join UPLOAD_FOLDER (''syllabus_'' @ secure_filename e (filename file))"
    and "save_failure e (disk w) p = None"
    and "process_uploaded_file e ((disk w)(p \<mapsto> stream file)) p = Inl x"
  shows "upload_syllabus e w req =
     (Inr (error_body (''Error processing syllabus: '' @ exn_str x), 500),
      \<lparr>disk = (disk w)(p \<mapsto> stream file),
       calls = calls w @ [Save p (stream file), ProcessUploadedFile p]\<rparr>)"
  using assms
  by (simp add: upload_syllabus_def passes_validation_def file_truthy_def save_ok log_call_def Let_def)

lemma upload_syllabus_embedded:
  assumes "passes_validation req file"
    and "n = secure_filename e (filename file)"
    and "p = path_join UPLOAD_FOLDER (''syllabus_'' @ n)"
    and "save_failure e (disk w) p = None"
    and "process_uploaded_file e ((disk w)(p \<mapsto> stream file)) p = Inr t"
    and "m = [(''education_level'', JStr (form_get req ''education_level'' ''high_school'')),
              (''subject'', JStr (form_get req ''subject'' ''general'')),
              (''upload_date'', JStr (now_isoformat e))]"
  shows "upload_syllabus e w req =
     ((case add_syllabus_materials e n t m of
         Inl x \<Rightarrow> Inr (error_body (''Error processing syllabus: '' @ exn_str x), 500)
       | Inr True \<Rightarrow>
           Inr (JObj [(''success'', JBool True),
                      (''filename'', JStr n),
                      (''message'', JStr ''Syllabus material embedded successfully''),
                      (''preview'', JStr (truncated 500 t))], 200)
       | Inr False \<Rightarrow> Inr (error_body ''Failed to process syllabus material'', 500)),
      \<lparr>disk = (disk w)(p \<mapsto> stream file),
       calls = calls w @ [Save p (stream file), ProcessUploadedFile p,
                          AddSyllabusMaterials n t m]\<rparr>)"
  using assms
  by (simp add: upload_syllabus_def passes_validation_def file_truthy_def save_ok log_call_def
      Let_def split: sum.split bool.split)



lemma generate_content_dict:
  assumes "json_body req = JObj kvs"
    and "topic = (case map_of kvs ''topic'' of None \<Rightarrow> JNull | Some v \<Rightarrow> v)"
    and "lvl = (case map_of kvs ''education_level'' of None \<Rightarrow> JStr ''high_school'' | Some v \<Rightarrow> v)"
    and "ref = (case map_of kvs ''reference_material'' of None \<Rightarrow> JStr [] | Some v \<Rightarrow> v)"
    and "ct = (case map_of kvs ''content_type'' of None \<Rightarrow> JStr ''explanation'' | Some v \<Rightarrow> v)"
  shows "generate_content e w req =
     (if \<not> truthy topic then (Inr (error_body ''Topic is required'', 400), w)
      else
        ((case ai_generate_content e topic lvl ref ct of
            Inr result \<Rightarrow>
              Inr (JObj [(''success'', JBool True), (''content'', JStr result),
                         (''content_type'', ct)], 200)
          | Inl x \<Rightarrow> Inr (error_body (''Error generating content: '' @ exn_str x), 500)),
         \<lparr>disk = disk w, calls = calls w @ [GenerateContent topic lvl ref ct]\<rparr>))"
  using assms
  by (simp add: generate_content_def log_call_def Let_def split: sum.split)


section \<open>Validation in the upload routes\<close>

lemma not_passing:
  assumes "\<forall>file. \<not> passes_validation req file"
  shows "\<exists>msg. upload_file e w req = (Inr (error_body msg, 400), w) \<and>
               upload_syllabus e w req = (Inr (error_body msg, 400), w)"
proof (cases "files req ''file''")
  case None
  then show ?thesis by (auto simp add: upload_file_no_part upload_syllabus_no_part)
next
  case (Some part)
  show ?thesis
  proof (cases "filename part = []")
    case True
    with Some show ?thesis by (auto simp add: upload_file_no_name upload_syllabus_no_name)
  next
    case False
    obtain b where b: "allowed_file (filename part) = Inr b"
      using allowed_file_total by blast
    with assms Some False have "allowed_file (filename part) = Inr False"
      by (cases b) (auto simp add: passes_validation_def)
    with Some False show ?thesis
      by (auto simp add: upload_file_bad_type upload_syllabus_bad_type)
  qed
qed

lemma upload_file_first_call:
  assumes "passes_validation req file"
  shows "\<exists>rest. calls (snd (upload_file e w req)) =
           calls w @ Save (path_join UPLOAD_FOLDER (secure_filename e (filename file))) (stream file) # rest"
proof -
  let ?p = "path_join UPLOAD_FOLDER (secure_filename e (filename file))"
  show ?thesis
  proof (cases "save_failure e (disk w) ?p")
    case (Some x)
    with assms show ?thesis by (simp add: upload_file_save_fails)
  next
    case None
    show ?thesis
    proof (cases "process_uploaded_file e ((disk w)(?p \<mapsto> stream file)) ?p")
      case (Inl x)
      with assms None show ?thesis by (simp add: upload_file_process_fails)
    next
      case (Inr t)
      with assms None show ?thesis by (simp add: upload_file_processed)
    qed
  qed
qed

lemma upload_syllabus_first_call:
  assumes "passes_validation req file"
  shows "\<exists>rest. calls (snd (upload_syllabus e w req)) =
           calls w @ Save (path_join UPLOAD_FOLDER (''syllabus_'' @ secure_filename e (filename file))) (stream file) # rest"
proof -
  let ?p = "path_join UPLOAD_FOLDER (''syllabus_'' @ secure_filename e (filename file))"
  show ?thesis
  proof (cases "save_failure e (disk w) ?p")
    case (Some x)
    with assms show ?thesis by (simp add: upload_syllabus_save_fails)
  next
    case None
    show ?thesis
    proof (cases "process_uploaded_file e ((disk w)(?p \<mapsto> stream file)) ?p")
      case (Inl x)
      with assms None show ?thesis by (simp add: upload_syllabus_process_fails)
    next
      case (Inr t)
      with assms None show ?thesis by (simp add: upload_syllabus_embedded)
    qed
  qed
qed

text \<open>
  C2. Both upload routes check the request in the same order, before anything is
  stored or processed: without a file part the response is 400 "No file uploaded";
  with an empty filename 400 "No file selected"; with a filename that
  \<open>allowed_file\<close> rejects 400 "Invalid file type", the world left as it was each
  time. When the three checks pass, the first thing the handler does is save the
  file; a request that does not pass them gets a 400 and causes no call at all.
\<close>

theorem upload_validation_order:
  "(files req ''file'' = None \<longrightarrow>
      upload_file e w req = (Inr (JObj [(''error'', JStr ''No file uploaded'')], 400), w) \<and>
      upload_syllabus e w req = (Inr (JObj [(''error'', JStr ''No file uploaded'')], 400), w))
   \<and> (files req ''file'' = Some file \<and> filename file = [] \<longrightarrow>
      upload_file e w req = (Inr (JObj [(''error'', JStr ''No file selected'')], 400), w) \<and>
      upload_syllabus e w req = (Inr (JObj [(''error'', JStr ''No file selected'')], 400), w))
   \<and> (files req ''file'' = Some file \<and> filename file \<noteq> [] \<and>
       allowed_file (filename file) = Inr False \<longrightarrow>
      upload_file e w req = (Inr (JObj [(''error'', JStr ''Invalid file type'')], 400), w) \<and>
      upload_syllabus e w req = (Inr (JObj [(''error'', JStr ''Invalid file type'')], 400), w))
   \<and> (files req ''file'' = Some file \<and> filename file \<noteq> [] \<and>
       allowed_file (filename file) = Inr True \<longrightarrow>
      (\<exists>rest. calls (snd (upload_file e w req)) =
         calls w @ Save (path_join UPLOAD_FOLDER (secure_filename e (filename file)))
                        (stream file) # rest) \<and>
      (\<exists>rest. calls (snd (upload_syllabus e w req)) =
         calls w @ Save (path_join UPLOAD_FOLDER (''syllabus_'' @ secure_filename e (filename file)))
                        (stream file) # rest))
   \<and> ((\<forall>f. \<not> passes_validation req f) \<longrightarrow>
      snd (upload_file e w req) = w \<and> status_of (fst (upload_file e w req)) = Some 400 \<and>
      snd (upload_syllabus e w req) = w \<and> status_of (fst (upload_syllabus e w req)) = Some 400)"
proof -
  have 1: "files req ''file'' = None \<longrightarrow>
      upload_file e w req = (Inr (JObj [(''error'', JStr ''No file uploaded'')], 400), w) \<and>
      upload_syllabus e w req = (Inr (JObj [(''error'', JStr ''No file uploaded'')], 400), w)"
    by (simp add: upload_file_no_part upload_syllabus_no_part error_body_def)
  have 2: "files req ''file'' = Some file \<and> filename file = [] \<longrightarrow>
      upload_file e w req = (Inr (JObj [(''error'', JStr ''No file selected'')], 400), w) \<and>
      upload_syllabus e w req = (Inr (JObj [(''error'', JStr ''No file selected'')], 400), w)"
    by (simp add: upload_file_no_name upload_syllabus_no_name error_body_def)
  have 3: "files req ''file'' = Some file \<and> filename file \<noteq> [] \<and>
       allowed_file (filename file) = Inr False \<longrightarrow>
      upload_file e w req = (Inr (JObj [(''error'', JStr ''Invalid file type'')], 400), w) \<and>
      upload_syllabus e w req = (Inr (JObj [(''error'', JStr ''Invalid file type'')], 400), w)"
    by (simp add: upload_file_bad_type upload_syllabus_bad_type error_body_def)
  have 4: "files req ''file'' = Some file \<and> filename file \<noteq> [] \<and>
       allowed_file (filename file) = Inr True \<longrightarrow>
      (\<exists>rest. calls (snd (upload_file e w req)) =
         calls w @ Save (path_join UPLOAD_FOLDER (secure_filename e (filename file)))
                        (stream file) # rest) \<and>
      (\<exists>rest. calls (snd (upload_syllabus e w req)) =
         calls w @ Save (path_join UPLOAD_FOLDER (''syllabus_'' @ secure_filename e (filename file)))
                        (stream file) # rest)"
    using upload_file_first_call [of req "file" e w] upload_syllabus_first_call [of req "file" e w]
    by (simp add: passes_validation_def)
  have 5: "(\<forall>f. \<not> passes_validation req f) \<longrightarrow>
      snd (upload_file e w req) = w \<and> status_of (fst (upload_file e w req)) = Some 400 \<and>
      snd (upload_syllabus e w req) = w \<and> status_of (fst (upload_syllabus e w req)) = Some 400"
  proof
    assume "\<forall>f. \<not> passes_validation req f"
    then obtain msg where "upload_file e w req = (Inr (error_body msg, 400), w)"
      "upload_syllabus e w req = (Inr (error_body msg, 400), w)"
      using not_passing [of req e w] by blast
    then show "snd (upload_file e w req) = w \<and> status_of (fst (upload_file e w req)) = Some 400 \<and>
      snd (upload_syllabus e w req) = w \<and> status_of (fst (upload_syllabus e w req)) = Some 400"
      by simp
  qed
  from 1 2 3 4 5 show ?thesis by (intro conjI)
qed


lemma sample_facts:
  "files bare_request ''file'' = None"
  "files (file_request n) ''file'' = Some (sample_file n)"
  "filename (sample_file n) = n"
  "stream (sample_file n) = [104, 105]"
  "disk empty_world = Map.empty"
  "calls empty_world = []"
  by (simp_all add: bare_request_def file_request_def sample_file_def empty_world_def)

lemma sample_env_facts:
  "secure_filename sample_env n = n"
  "save_failure sample_env d p = None"
  "process_uploaded_file sample_env d p = Inr ''photosynthesis notes''"
  "add_syllabus_materials sample_env n t m = Inr True"
  "ai_generate_content sample_env a b c1 c2 = Inr ''generated text''"
  "ai_chat sample_env a b c = Inr ''an answer''"
  "now_isoformat sample_env = ''2024-05-01T10:00:00''"
  by (simp_all add: sample_env_def)

lemma extractor_env_facts:
  "secure_filename (extractor_env r) n = n"
  "save_failure (extractor_env r) d p = None"
  "process_uploaded_file (extractor_env r) d p = r"
  "add_syllabus_materials (extractor_env r) n t m = Inr True"
  "now_isoformat (extractor_env r) = ''2024-05-01T10:00:00''"
  by (simp_all add: extractor_env_def sample_env_def)

lemma gateway_env_facts:
  "secure_filename (gateway_env r) n = n"
  "save_failure (gateway_env r) d p = None"
  "process_uploaded_file (gateway_env r) d p = Inr ''photosynthesis notes''"
  "add_syllabus_materials (gateway_env r) n t m = r"
  "now_isoformat (gateway_env r) = ''2024-05-01T10:00:00''"
  by (simp_all add: gateway_env_def sample_env_def)


lemma no_part_never_passes: "\<not> passes_validation bare_request f"
  by (simp add: passes_validation_def sample_facts)

theorem upload_validation_order_witness:
  "upload_file sample_env empty_world bare_request =
     (Inr (JObj [(''error'', JStr ''No file uploaded'')], 400), empty_world)
   \<and> upload_syllabus sample_env empty_world (file_request []) =
     (Inr (JObj [(''error'', JStr ''No file selected'')], 400), empty_world)
   \<and> upload_file sample_env empty_world (file_request ''x.exe'') =
     (Inr (JObj [(''error'', JStr ''Invalid file type'')], 400), empty_world)
   \<and> (\<exists>rest. calls (snd (upload_syllabus sample_env empty_world (file_request ''a.txt''))) =
         Save ''static/uploads/syllabus_a.txt'' [104, 105] # rest)
   \<and> snd (upload_syllabus sample_env empty_world bare_request) = empty_world"
proof -
  have h1: "files bare_request ''file'' = None"
    by (simp add: sample_facts)
  have h2: "files (file_request []) ''file'' = Some (sample_file []) \<and> filename (sample_file []) = []"
    by (simp add: sample_facts)
  have h3: "files (file_request ''x.exe'') ''file'' = Some (sample_file ''x.exe'') \<and>
      filename (sample_file ''x.exe'') \<noteq> [] \<and>
      allowed_file (filename (sample_file ''x.exe'')) = Inr False"
    by (simp add: sample_facts allowed_examples)
  have h4: "files (file_request ''a.txt'') ''file'' = Some (sample_file ''a.txt'') \<and>
      filename (sample_file ''a.txt'') \<noteq> [] \<and>
      allowed_file (filename (sample_file ''a.txt'')) = Inr True"
    by (simp add: sample_facts allowed_examples)
  have h5: "\<forall>f. \<not> passes_validation bare_request f"
    by (simp add: no_part_never_passes)
  note t1 = upload_validation_order [of bare_request sample_env empty_world "sample_file []"]
  note t2 = upload_validation_order [of "file_request []" sample_env empty_world "sample_file []"]
  note t3 = upload_validation_order [of "file_request ''x.exe''" sample_env empty_world "sample_file ''x.exe''"]
  note t4 = upload_validation_order [of "file_request ''a.txt''" sample_env empty_world "sample_file ''a.txt''"]
  have c1: "upload_file sample_env empty_world bare_request =
     (Inr (JObj [(''error'', JStr ''No file uploaded'')], 400), empty_world)"
    using t1 h1 by blast
  have c2: "upload_syllabus sample_env empty_world (file_request []) =
     (Inr (JObj [(''error'', JStr ''No file selected'')], 400), empty_world)"
    using t2 h2 by blast
  have c3: "upload_file sample_env empty_world (file_request ''x.exe'') =
     (Inr (JObj [(''error'', JStr ''Invalid file type'')], 400), empty_world)"
    using t3 h3 by blast
  have "\<exists>rest. calls (snd (upload_syllabus sample_env empty_world (file_request ''a.txt''))) =
         calls empty_world @ Save (path_join UPLOAD_FOLDER (''syllabus_'' @
            secure_filename sample_env (filename (sample_file ''a.txt'')))) (stream (sample_file ''a.txt'')) # rest"
    using t4 h4 by blast
  then have c4: "\<exists>rest. calls (snd (upload_syllabus sample_env empty_world (file_request ''a.txt''))) =
         Save ''static/uploads/syllabus_a.txt'' [104, 105] # rest"
    by (simp add: sample_facts sample_env_facts path_join_def UPLOAD_FOLDER_def)
  have c5: "snd (upload_syllabus sample_env empty_world bare_request) = empty_world"
    using t1 h5 by blast
  from c1 c2 c3 c4 c5 show ?thesis by (intro conjI)
qed

text \<open>
  C3. On a successful POST /api/upload where the extraction returns the text \<open>t\<close>,
  the response is a 200 whose content field is the first 1000 characters of \<open>t\<close>
  followed by "..." (1003 characters) when \<open>t\<close> is longer than 1000, and \<open>t\<close>
  itself otherwise.
\<close>

theorem upload_content_truncated:
  assumes "passes_validation req file"
    and "save_failure e (disk w) (path_join UPLOAD_FOLDER (secure_filename e (filename file))) = None"
    and "process_uploaded_file e
           ((disk w)(path_join UPLOAD_FOLDER (secure_filename e (filename file)) \<mapsto> stream file))
           (path_join UPLOAD_FOLDER (secure_filename e (filename file))) = Inr t"
  shows "status_of (fst (upload_file e w req)) = Some 200
     \<and> response_field (fst (upload_file e w req)) ''content'' =
         Some (JStr (if 1000 < length t then take 1000 t @ ''...'' else t))
     \<and> (1000 < length t \<longrightarrow>
          (\<exists>c. response_field (fst (upload_file e w req)) ''content'' = Some (JStr c) \<and>
               c = take 1000 t @ ''...'' \<and> length c = 1003))
     \<and> (length t \<le> 1000 \<longrightarrow>
          response_field (fst (upload_file e w req)) ''content'' = Some (JStr t))"
proof -
  have "upload_file e w req =
     (Inr (JObj [(''success'', JBool True),
                 (''filename'', JStr (secure_filename e (filename file))),
                 (''content'', JStr (truncated 1000 t)),
                 (''message'', JStr ''File processed successfully'')], 200),
      \<lparr>disk = (disk w)(path_join UPLOAD_FOLDER (secure_filename e (filename file)) \<mapsto> stream file),
       calls = calls w @ [Save (path_join UPLOAD_FOLDER (secure_filename e (filename file))) (stream file),
                          ProcessUploadedFile (path_join UPLOAD_FOLDER (secure_filename e (filename file)))]\<rparr>)"
    using assms by (rule upload_file_processed [OF _ refl])
  then show ?thesis
    by (simp add: truncated_def)
qed

theorem upload_content_truncated_witness:
  "response_field
     (fst (upload_file (extractor_env (Inr (replicate 1500 CHR ''a''))) empty_world
             (file_request ''notes.TXT''))) ''content'' =
     Some (JStr (replicate 1000 CHR ''a'' @ ''...''))
   \<and> response_field
     (fst (upload_file (extractor_env (Inr (replicate 500 CHR ''a''))) empty_world
             (file_request ''notes.TXT''))) ''content'' =
     Some (JStr (replicate 500 CHR ''a''))"
proof -
  have v: "passes_validation (file_request ''notes.TXT'') (sample_file ''notes.TXT'')"
    by (simp add: passes_validation_def sample_facts allowed_examples)
  have l: "(1000::nat) < length (replicate 1500 CHR ''a'')" by simp
  have s: "length (replicate 500 CHR ''a'') \<le> (1000::nat)" by simp
  have a: "response_field
     (fst (upload_file (extractor_env (Inr (replicate 1500 CHR ''a''))) empty_world
             (file_request ''notes.TXT''))) ''content'' =
     Some (JStr (take 1000 (replicate 1500 CHR ''a'') @ ''...''))"
    using upload_content_truncated [of "file_request ''notes.TXT''" "sample_file ''notes.TXT''"
        "extractor_env (Inr (replicate 1500 CHR ''a''))" empty_world "replicate 1500 CHR ''a''", OF v] l
    by (simp add: extractor_env_facts)
  have b: "response_field
     (fst (upload_file (extractor_env (Inr (replicate 500 CHR ''a''))) empty_world
             (file_request ''notes.TXT''))) ''content'' =
     Some (JStr (replicate 500 CHR ''a''))"
    using upload_content_truncated [of "file_request ''notes.TXT''" "sample_file ''notes.TXT''"
        "extractor_env (Inr (replicate 500 CHR ''a''))" empty_world "replicate 500 CHR ''a''", OF v] s
    by (simp add: extractor_env_facts)
  from a b show ?thesis by simp
qed

section \<open>Failures in the upload routes\<close>








section \<open>Syllabus uploads\<close>

lemma upload_syllabus_success_iff:
  assumes "status_of (fst (upload_syllabus e w req)) = Some 200"
  shows "\<exists>file t. passes_validation req file \<and>
           save_failure e (disk w) (syllabus_path e file) = None \<and>
           process_uploaded_file e ((disk w)(syllabus_path e file \<mapsto> stream file)) (syllabus_path e file) = Inr t \<and>
           add_syllabus_materials e (secure_filename e (filename file)) t (syllabus_metadata e req) = Inr True"
proof (cases "\<exists>f. passes_validation req f")
  case False
  then obtain msg where "upload_syllabus e w req = (Inr (error_body msg, 400), w)"
    using not_passing [of req e w] by blast
  with assms show ?thesis by simp
next
  case True
  then obtain f where f: "passes_validation req f" by blast
  let ?p = "syllabus_path e f"
  show ?thesis
  proof (cases "save_failure e (disk w) ?p")
    case (Some x)
    with f assms show ?thesis by (simp add: upload_syllabus_save_fails)
  next
    case None
    show ?thesis
    proof (cases "process_uploaded_file e ((disk w)(?p \<mapsto> stream f)) ?p")
      case (Inl x)
      with f None assms show ?thesis by (simp add: upload_syllabus_process_fails)
    next
      case (Inr t)
      note r = upload_syllabus_embedded [OF f refl refl None Inr refl]
      have "add_syllabus_materials e (secure_filename e (filename f)) t (syllabus_metadata e req) = Inr True"
        using assms unfolding r by (simp split: sum.splits bool.splits)
      with f None Inr show ?thesis by blast
    qed
  qed
qed

lemma form_get_sample: "form_get (file_request n) k d = d"
  by (simp add: form_get_def file_request_def)

lemma syllabus_sample_run:
  "upload_syllabus sample_env empty_world (file_request ''a.txt'') =
    (Inr (JObj [(''success'', JBool True), (''filename'', JStr ''a.txt''),
                (''message'', JStr ''Syllabus material embedded successfully''),
                (''preview'', JStr ''photosynthesis notes'')], 200),
     \<lparr>disk = [''static/uploads/syllabus_a.txt'' \<mapsto> [104, 105]],
      calls = [Save ''static/uploads/syllabus_a.txt'' [104, 105],
        ProcessUploadedFile ''static/uploads/syllabus_a.txt'',
        AddSyllabusMaterials ''a.txt'' ''photosynthesis notes''
          [(''education_level'', JStr ''high_school''), (''subject'', JStr ''general''),
           (''upload_date'', JStr ''2024-05-01T10:00:00'')]]\<rparr>)"
proof -
  have v: "passes_validation (file_request ''a.txt'') (sample_file ''a.txt'')"
    by (simp add: passes_validation_def sample_facts allowed_examples)
  note r = upload_syllabus_embedded [OF v refl refl _ _ refl, of sample_env empty_world
      "''photosynthesis notes''"]
  show ?thesis
    using r by (simp add: sample_env_facts sample_facts form_get_sample truncated_def
        path_join_def UPLOAD_FOLDER_def)
qed

text \<open>
  C5, as stated, fails: on a successful syllabus upload of a.txt the file is stored as
  static/uploads/syllabus_a.txt, while the response's filename field and the name
  given to the gateway are a.txt, under which nothing is stored.
\<close>

theorem syllabus_stored_name_differs:
  "status_of (fst (upload_syllabus sample_env empty_world (file_request ''a.txt''))) = Some 200
   \<and> response_field (fst (upload_syllabus sample_env empty_world (file_request ''a.txt''))) ''filename'' =
       Some (JStr ''a.txt'')
   \<and> calls (snd (upload_syllabus sample_env empty_world (file_request ''a.txt''))) =
       [Save ''static/uploads/syllabus_a.txt'' [104, 105],
        ProcessUploadedFile ''static/uploads/syllabus_a.txt'',
        AddSyllabusMaterials ''a.txt'' ''photosynthesis notes''
          [(''education_level'', JStr ''high_school''), (''subject'', JStr ''general''),
           (''upload_date'', JStr ''2024-05-01T10:00:00'')]]
   \<and> disk (snd (upload_syllabus sample_env empty_world (file_request ''a.txt'')))
        ''static/uploads/syllabus_a.txt'' = Some [104, 105]
   \<and> disk (snd (upload_syllabus sample_env empty_world (file_request ''a.txt'')))
        (path_join UPLOAD_FOLDER ''a.txt'') = None"
  by (simp add: syllabus_sample_run path_join_def UPLOAD_FOLDER_def)

text \<open>
  C5, amended. On every successful POST /api/syllabus/upload with sanitized filename
  \<open>n\<close> the file is written into the upload directory under the name "syllabus_" + n;
  the response's filename field and the name passed to \<open>add_syllabus_materials\<close> are
  both \<open>n\<close>, without the prefix.
\<close>

theorem syllabus_upload_names:
  assumes "status_of (fst (upload_syllabus e w req)) = Some 200"
  shows "\<exists>file t.
     files req ''file'' = Some file
     \<and> disk (snd (upload_syllabus e w req)) =
         (disk w)(''static/uploads/syllabus_'' @ secure_filename e (filename file) \<mapsto> stream file)
     \<and> calls (snd (upload_syllabus e w req)) =
         calls w @
         [Save (''static/uploads/syllabus_'' @ secure_filename e (filename file)) (stream file),
          ProcessUploadedFile (''static/uploads/syllabus_'' @ secure_filename e (filename file)),
          AddSyllabusMaterials (secure_filename e (filename file)) t (syllabus_metadata e req)]
     \<and> response_field (fst (upload_syllabus e w req)) ''filename'' =
         Some (JStr (secure_filename e (filename file)))"
proof -
  obtain f t where f: "passes_validation req f"
    and s: "save_failure e (disk w) (syllabus_path e f) = None"
    and p: "process_uploaded_file e ((disk w)(syllabus_path e f \<mapsto> stream f)) (syllabus_path e f) = Inr t"
    and g: "add_syllabus_materials e (secure_filename e (filename f)) t (syllabus_metadata e req) = Inr True"
    using upload_syllabus_success_iff [OF assms] by blast
  note r = upload_syllabus_embedded [OF f refl refl s p refl]
  have "files req ''file'' = Some f"
    using f by (simp add: passes_validation_def)
  moreover have "disk (snd (upload_syllabus e w req)) =
         (disk w)(''static/uploads/syllabus_'' @ secure_filename e (filename f) \<mapsto> stream f)"
    unfolding r by (simp add: path_join_def UPLOAD_FOLDER_def)
  moreover have "calls (snd (upload_syllabus e w req)) =
         calls w @
         [Save (''static/uploads/syllabus_'' @ secure_filename e (filename f)) (stream f),
          ProcessUploadedFile (''static/uploads/syllabus_'' @ secure_filename e (filename f)),
          AddSyllabusMaterials (secure_filename e (filename f)) t (syllabus_metadata e req)]"
    unfolding r by (simp add: path_join_def UPLOAD_FOLDER_def)
  moreover have "response_field (fst (upload_syllabus e w req)) ''filename'' =
         Some (JStr (secure_filename e (filename f)))"
    unfolding r by (simp add: g)
  ultimately show ?thesis by blast
qed


theorem syllabus_upload_names_witness:
  "status_of (fst (upload_syllabus sample_env empty_world (file_request ''a.txt''))) = Some 200
   \<and> (\<exists>file t.
     files (file_request ''a.txt'') ''file'' = Some file
     \<and> disk (snd (upload_syllabus sample_env empty_world (file_request ''a.txt''))) =
         (disk empty_world)(''static/uploads/syllabus_'' @ secure_filename sample_env (filename file)
            \<mapsto> stream file)
     \<and> calls (snd (upload_syllabus sample_env empty_world (file_request ''a.txt''))) =
         calls empty_world @
         [Save (''static/uploads/syllabus_'' @ secure_filename sample_env (filename file)) (stream file),
          ProcessUploadedFile (''static/uploads/syllabus_'' @ secure_filename sample_env (filename file)),
          AddSyllabusMaterials (secure_filename sample_env (filename file)) t
            (syllabus_metadata sample_env (file_request ''a.txt''))]
     \<and> response_field (fst (upload_syllabus sample_env empty_world (file_request ''a.txt'')))
          ''filename'' = Some (JStr (secure_filename sample_env (filename file))))"
proof -
  have h: "status_of (fst (upload_syllabus sample_env empty_world (file_request ''a.txt''))) = Some 200"
    by (simp add: syllabus_sample_run)
  show ?thesis
    by (rule conjI [OF h syllabus_upload_names [OF h]])
qed

text \<open>
  C6. When validation, saving and extraction succeed on POST /api/syllabus/upload: if
  \<open>add_syllabus_materials\<close> returns false the response is 500 "Failed to process
  syllabus material"; if it returns true the response is 200 with success, filename,
  message and a preview that is the first 500 characters plus "..." when the text is
  longer than 500, and the whole text otherwise.
\<close>

theorem syllabus_gateway_outcome:
  assumes "passes_validation req file"
    and "save_failure e (disk w) (syllabus_path e file) = None"
    and "process_uploaded_file e ((disk w)(syllabus_path e file \<mapsto> stream file))
           (syllabus_path e file) = Inr t"
  shows "(add_syllabus_materials e (secure_filename e (filename file)) t (syllabus_metadata e req)
            = Inr False \<longrightarrow>
          fst (upload_syllabus e w req) =
            Inr (JObj [(''error'', JStr ''Failed to process syllabus material'')], 500))
     \<and> (add_syllabus_materials e (secure_filename e (filename file)) t (syllabus_metadata e req)
            = Inr True \<longrightarrow>
          fst (upload_syllabus e w req) =
            Inr (JObj [(''success'', JBool True),
                       (''filename'', JStr (secure_filename e (filename file))),
                       (''message'', JStr ''Syllabus material embedded successfully''),
                       (''preview'', JStr (if 500 < length t then take 500 t @ ''...'' else t))],
                 200))"
  unfolding upload_syllabus_embedded [OF assms(1) refl refl assms(2) assms(3) refl]
  by (simp add: error_body_def truncated_def)

theorem syllabus_gateway_outcome_witness:
  "fst (upload_syllabus (gateway_env (Inr False)) empty_world (file_request ''a.txt'')) =
     Inr (JObj [(''error'', JStr ''Failed to process syllabus material'')], 500)
   \<and> fst (upload_syllabus (extractor_env (Inr (replicate 600 CHR ''b''))) empty_world
            (file_request ''a.txt'')) =
     Inr (JObj [(''success'', JBool True),
                (''filename'', JStr ''a.txt''),
                (''message'', JStr ''Syllabus material embedded successfully''),
                (''preview'', JStr (replicate 500 CHR ''b'' @ ''...''))], 200)
   \<and> fst (upload_syllabus sample_env empty_world (file_request ''a.txt'')) =
     Inr (JObj [(''success'', JBool True),
                (''filename'', JStr ''a.txt''),
                (''message'', JStr ''Syllabus material embedded successfully''),
                (''preview'', JStr ''photosynthesis notes'')], 200)"
proof -
  have v: "passes_validation (file_request ''a.txt'') (sample_file ''a.txt'')"
    by (simp add: passes_validation_def sample_facts allowed_examples)
  have a: "fst (upload_syllabus (gateway_env (Inr False)) empty_world (file_request ''a.txt'')) =
     Inr (JObj [(''error'', JStr ''Failed to process syllabus material'')], 500)"
    using syllabus_gateway_outcome [OF v, of "gateway_env (Inr False)" empty_world
        "''photosynthesis notes''"]
    by (simp add: gateway_env_facts)
  have b: "fst (upload_syllabus (extractor_env (Inr (replicate 600 CHR ''b''))) empty_world
            (file_request ''a.txt'')) =
     Inr (JObj [(''success'', JBool True),
                (''filename'', JStr ''a.txt''),
                (''message'', JStr ''Syllabus material embedded successfully''),
                (''preview'', JStr (replicate 500 CHR ''b'' @ ''...''))], 200)"
    using syllabus_gateway_outcome [OF v, of "extractor_env (Inr (replicate 600 CHR ''b''))"
        empty_world "replicate 600 CHR ''b''"]
    by (simp add: extractor_env_facts sample_facts)
  have c: "fst (upload_syllabus sample_env empty_world (file_request ''a.txt'')) =
     Inr (JObj [(''success'', JBool True),
                (''filename'', JStr ''a.txt''),
                (''message'', JStr ''Syllabus material embedded successfully''),
                (''preview'', JStr ''photosynthesis notes'')], 200)"
    using syllabus_gateway_outcome [OF v, of sample_env empty_world "''photosynthesis notes''"]
    by (simp add: sample_env_facts sample_facts)
  from a b c show ?thesis by (intro conjI)
qed

section \<open>Content generation, chat and health\<close>

text \<open>
  C7. On POST /api/generate-content with a JSON object as body: a missing or empty
  topic is answered with 400 "Topic is required" and the world is left as it was, so
  the gateway is not called; with a non-empty topic and no content_type field the
  gateway is called once, with content_type "explanation", and when it returns a
  result the response is 200 with success true, the result as content, and
  content_type "explanation".
\<close>

theorem generate_content_topic_and_default:
  assumes "json_body req = JObj kvs"
    and "lvl = (case map_of kvs ''education_level'' of None \<Rightarrow> JStr ''high_school'' | Some v \<Rightarrow> v)"
    and "ref = (case map_of kvs ''reference_material'' of None \<Rightarrow> JStr [] | Some v \<Rightarrow> v)"
  shows "((map_of kvs ''topic'' = None \<or> map_of kvs ''topic'' = Some (JStr [])) \<longrightarrow>
            generate_content e w req =
              (Inr (JObj [(''error'', JStr ''Topic is required'')], 400), w))
     \<and> (map_of kvs ''topic'' = Some topic \<and> truthy topic \<and> map_of kvs ''content_type'' = None \<longrightarrow>
            calls (snd (generate_content e w req)) =
              calls w @ [GenerateContent topic lvl ref (JStr ''explanation'')]
          \<and> (\<forall>result. ai_generate_content e topic lvl ref (JStr ''explanation'') = Inr result \<longrightarrow>
                fst (generate_content e w req) =
                  Inr (JObj [(''success'', JBool True), (''content'', JStr result),
                             (''content_type'', JStr ''explanation'')], 200)))"
proof -
  note g = generate_content_dict [OF assms(1) refl assms(2) assms(3) refl, of e w]
  have 1: "(map_of kvs ''topic'' = None \<or> map_of kvs ''topic'' = Some (JStr [])) \<longrightarrow>
            generate_content e w req =
              (Inr (JObj [(''error'', JStr ''Topic is required'')], 400), w)"
    unfolding g by (auto simp add: error_body_def)
  have 2: "map_of kvs ''topic'' = Some topic \<and> truthy topic \<and> map_of kvs ''content_type'' = None \<longrightarrow>
            calls (snd (generate_content e w req)) =
              calls w @ [GenerateContent topic lvl ref (JStr ''explanation'')]
          \<and> (\<forall>result. ai_generate_content e topic lvl ref (JStr ''explanation'') = Inr result \<longrightarrow>
                fst (generate_content e w req) =
                  Inr (JObj [(''success'', JBool True), (''content'', JStr result),
                             (''content_type'', JStr ''explanation'')], 200))"
    unfolding g by simp
  from 1 2 show ?thesis by (intro conjI)
qed

theorem generate_content_topic_and_default_witness:
  "generate_content sample_env empty_world (json_request (JObj [(''topic'', JStr [])])) =
     (Inr (JObj [(''error'', JStr ''Topic is required'')], 400), empty_world)
   \<and> generate_content sample_env empty_world (json_request (JObj [])) =
     (Inr (JObj [(''error'', JStr ''Topic is required'')], 400), empty_world)
   \<and> calls (snd (generate_content sample_env empty_world
                   (json_request (JObj [(''topic'', JStr ''Photosynthesis'')])))) =
       [GenerateContent (JStr ''Photosynthesis'') (JStr ''high_school'') (JStr [])
          (JStr ''explanation'')]
   \<and> fst (generate_content sample_env empty_world
            (json_request (JObj [(''topic'', JStr ''Photosynthesis'')]))) =
       Inr (JObj [(''success'', JBool True), (''content'', JStr ''generated text''),
                  (''content_type'', JStr ''explanation'')], 200)"
proof -
  have j: "json_body (json_request j) = j" for j
    by (simp add: json_request_def)
  have a: "generate_content sample_env empty_world (json_request (JObj [(''topic'', JStr [])])) =
     (Inr (JObj [(''error'', JStr ''Topic is required'')], 400), empty_world)"
    using generate_content_topic_and_default [where kvs = "[(''topic'', JStr [])]"
        and e = sample_env and w = empty_world and topic = JNull, OF j refl refl]
    by simp
  have b: "generate_content sample_env empty_world (json_request (JObj [])) =
     (Inr (JObj [(''error'', JStr ''Topic is required'')], 400), empty_world)"
    using generate_content_topic_and_default [where kvs = "[]"
        and e = sample_env and w = empty_world and topic = JNull, OF j refl refl]
    by simp
  have c: "calls (snd (generate_content sample_env empty_world
                   (json_request (JObj [(''topic'', JStr ''Photosynthesis'')])))) =
       [GenerateContent (JStr ''Photosynthesis'') (JStr ''high_school'') (JStr [])
          (JStr ''explanation'')]
    \<and> fst (generate_content sample_env empty_world
            (json_request (JObj [(''topic'', JStr ''Photosynthesis'')]))) =
       Inr (JObj [(''success'', JBool True), (''content'', JStr ''generated text''),
                  (''content_type'', JStr ''explanation'')], 200)"
    using generate_content_topic_and_default [where kvs = "[(''topic'', JStr ''Photosynthesis'')]"
        and e = sample_env and w = empty_world and topic = "JStr ''Photosynthesis''", OF j refl refl]
    by (simp add: sample_env_facts sample_facts)
  from a b c show ?thesis by (intro conjI) simp_all
qed

text \<open>
  C8. GET /api/health always returns 200 with the body status "healthy", message
  "Learnova AI is running!", whatever the collaborators, the world and the request
  are; it makes no call and leaves the disk alone.
\<close>

theorem health_check_constant:
  "health_check e w req =
     (Inr (JObj [(''status'', JStr ''healthy''), (''message'', JStr ''Learnova AI is running!'')],
           200), w)
   \<and> calls (snd (health_check e w req)) = calls w
   \<and> disk (snd (health_check e w req)) = disk w"
  by (simp add: health_check_def)

theorem health_check_constant_witness:
  "health_check disk_full_env empty_world bare_request =
     (Inr (JObj [(''status'', JStr ''healthy''), (''message'', JStr ''Learnova AI is running!'')],
           200), empty_world)"
  using health_check_constant [of disk_full_env empty_world bare_request] by simp

text \<open>
  C9. POST /api/upload reads the form field education_level and never uses it:
  setting the field to any value, or removing it, changes neither the response nor
  the effects of the handler.
\<close>

theorem upload_ignores_education_level:
  "upload_file e w (req\<lparr>form := (form req)(''education_level'' := v)\<rparr>) = upload_file e w req"
  by (cases "files req ''file''") (simp_all add: upload_file_def Let_def)

theorem upload_ignores_education_level_witness:
  "upload_file sample_env empty_world
     ((file_request ''a.txt'')\<lparr>form := (form (file_request ''a.txt''))(''education_level'' \<mapsto> ''primary'')\<rparr>) =
   upload_file sample_env empty_world
     ((file_request ''a.txt'')\<lparr>form := (form (file_request ''a.txt''))(''education_level'' \<mapsto> ''university'')\<rparr>)"
  using
    upload_ignores_education_level [of sample_env empty_world "file_request ''a.txt''" "Some ''primary''"]
    upload_ignores_education_level [of sample_env empty_world "file_request ''a.txt''" "Some ''university''"]
  by simp




end
